theory Spec2Isabelle
  imports Main
begin

section \<open>Python values\<close>

text \<open>
  A Python \<open>str\<close> is the list of its code points; each code point is one \<open>char\<close>, which
  covers the code points 0 to 255. The values the program handles are what \<open>json.load\<close>
  produces (\<open>None\<close>, booleans, integers, strings, lists, dictionaries with string keys) and
  the \<open>ObjectId\<close> of the document store, which carries its string form. A dictionary keeps
  its items in insertion order, each key once.
\<close>

datatype pyval =
    PNone
  | PBool bool
  | PInt int
  | PStr string
  | PList "pyval list"
  | PDict "(string \<times> pyval) list"
  | PObjectId string

subsection \<open>convert_objectid_to_str\<close>

primrec convert_objectid_to_str :: "pyval \<Rightarrow> pyval" where
  "convert_objectid_to_str PNone = PNone"
| "convert_objectid_to_str (PBool b) = PBool b"
| "convert_objectid_to_str (PInt n) = PInt n"
| "convert_objectid_to_str (PStr s) = PStr s"
| "convert_objectid_to_str (PList xs) = PList (map convert_objectid_to_str xs)"
| "convert_objectid_to_str (PDict kvs) = PDict (map (map_prod id convert_objectid_to_str) kvs)"
| "convert_objectid_to_str (PObjectId s) = PStr s"

text \<open>Observers used to state what the conversion keeps: whether a value holds an
  \<open>ObjectId\<close>, its leaves from left to right, and its container structure with every leaf
  blanked.\<close>

primrec has_objectid :: "pyval \<Rightarrow> bool" where
  "has_objectid PNone = False"
| "has_objectid (PBool b) = False"
| "has_objectid (PInt n) = False"
| "has_objectid (PStr s) = False"
| "has_objectid (PList xs) = list_ex id (map has_objectid xs)"
| "has_objectid (PDict kvs) = list_ex snd (map (map_prod id has_objectid) kvs)"
| "has_objectid (PObjectId s) = True"

primrec leaves :: "pyval \<Rightarrow> pyval list" where
  "leaves PNone = [PNone]"
| "leaves (PBool b) = [PBool b]"
| "leaves (PInt n) = [PInt n]"
| "leaves (PStr s) = [PStr s]"
| "leaves (PList xs) = concat (map leaves xs)"
| "leaves (PDict kvs) = concat (map snd (map (map_prod id leaves) kvs))"
| "leaves (PObjectId s) = [PObjectId s]"

primrec shape :: "pyval \<Rightarrow> pyval" where
  "shape PNone = PNone"
| "shape (PBool b) = PNone"
| "shape (PInt n) = PNone"
| "shape (PStr s) = PNone"
| "shape (PList xs) = PList (map shape xs)"
| "shape (PDict kvs) = PDict (map (map_prod id shape) kvs)"
| "shape (PObjectId s) = PNone"

fun leaf_str :: "pyval \<Rightarrow> pyval" where
  "leaf_str (PObjectId s) = PStr s"
| "leaf_str v = v"

section \<open>Strings, paths and JSON text\<close>

datatype exn = IndexError | AttributeError | TypeError | KeyError | ValueError
  | JSONDecodeError | FileNotFoundError | OSError | BackendError string

text \<open>\<open>except ValueError\<close> also catches the subclass \<open>json.JSONDecodeError\<close>.\<close>

fun is_ValueError :: "exn \<Rightarrow> bool" where
  "is_ValueError ValueError = True"
| "is_ValueError JSONDecodeError = True"
| "is_ValueError e = False"

text \<open>The characters \<open>str.split()\<close> and \<open>str.strip()\<close> treat as whitespace, among the
  code points 0 to 255.\<close>

definition isspace :: "char \<Rightarrow> bool" where
  "isspace c = (let n = (of_char c :: nat) in
     (9 \<le> n \<and> n \<le> 13) \<or> (28 \<le> n \<and> n \<le> 32) \<or> n = 133 \<or> n = 160)"

text \<open>\<open>s.split()\<close>: the maximal runs of non-whitespace characters, in order. The first
  argument is the token being read, reversed.\<close>

fun split_acc :: "string \<Rightarrow> string \<Rightarrow> string list" where
  "split_acc cur [] = (if cur = [] then [] else [rev cur])"
| "split_acc cur (c # cs) =
     (if isspace c then (if cur = [] then split_acc [] cs else rev cur # split_acc [] cs)
      else split_acc (c # cur) cs)"

definition py_split :: "string \<Rightarrow> string list" where
  "py_split s = split_acc [] s"

definition py_strip :: "string \<Rightarrow> string" where
  "py_strip s = rev (dropWhile isspace (rev (dropWhile isspace s)))"

text \<open>\<open>pathlib\<close>: the suffix of a file name starts at its last dot, unless that dot is the
  first or the last character; the stem is the rest.\<close>

fun rfind :: "'a \<Rightarrow> 'a list \<Rightarrow> nat option" where
  "rfind c [] = None"
| "rfind c (x # xs) =
     (case rfind c xs of Some i \<Rightarrow> Some (Suc i) | None \<Rightarrow> if x = c then Some 0 else None)"

definition suffix :: "string \<Rightarrow> string" where
  "suffix name = (case rfind CHR ''.'' name of
       Some i \<Rightarrow> if 0 < i \<and> i + 1 < length name then drop i name else []
     | None \<Rightarrow> [])"

definition stem :: "string \<Rightarrow> string" where
  "stem name = (case rfind CHR ''.'' name of
       Some i \<Rightarrow> if 0 < i \<and> i + 1 < length name then take i name else name
     | None \<Rightarrow> name)"

definition char_lower :: "char \<Rightarrow> char" where
  "char_lower c = (let n = (of_char c :: nat) in
     if (65 \<le> n \<and> n \<le> 90) \<or> (192 \<le> n \<and> n \<le> 222 \<and> n \<noteq> 215) then char_of (n + 32) else c)"

definition lower :: "string \<Rightarrow> string" where
  "lower s = map char_lower s"

subsection \<open>json.dumps\<close>

text \<open>
  The encoder of the standard library: \<open>ESCAPE_DCT\<close> holds the short escapes and the
  \<open>\u00XX\<close> forms of the control characters; with \<open>ensure_ascii\<close> every character outside
  the printable ASCII range is written as a \<open>\uXXXX\<close> escape too. With an indent, the items
  of a non-empty container stand on lines of their own, separated by a comma, and a key is
  followed by a colon and a space. A value that is not JSON (an \<open>ObjectId\<close>) raises TypeError.
\<close>

definition hex_digit :: "nat \<Rightarrow> char" where
  "hex_digit d = (if d < 10 then char_of (48 + d) else char_of (87 + d))"

definition u_escape :: "nat \<Rightarrow> string" where
  "u_escape n = [CHR 0x5C, CHR ''u'', hex_digit (n div 4096 mod 16), hex_digit (n div 256 mod 16),
     hex_digit (n div 16 mod 16), hex_digit (n mod 16)]"

definition ESCAPE_DCT :: "char \<Rightarrow> string option" where
  "ESCAPE_DCT c =
     (if c = CHR 0x5C then Some [CHR 0x5C, CHR 0x5C]
      else if c = CHR 0x22 then Some [CHR 0x5C, CHR 0x22]
      else if c = CHR 0x08 then Some [CHR 0x5C, CHR ''b'']
      else if c = CHR 0x0C then Some [CHR 0x5C, CHR ''f'']
      else if c = CHR 0x0A then Some [CHR 0x5C, CHR ''n'']
      else if c = CHR 0x0D then Some [CHR 0x5C, CHR ''r'']
      else if c = CHR 0x09 then Some [CHR 0x5C, CHR ''t'']
      else if (of_char c :: nat) < 32 then Some (u_escape (of_char c))
      else None)"

definition encode_char :: "bool \<Rightarrow> char \<Rightarrow> string" where
  "encode_char ensure_ascii c =
     (case ESCAPE_DCT c of
        Some e \<Rightarrow> e
      | None \<Rightarrow>
          if ensure_ascii \<and> \<not> (32 \<le> (of_char c :: nat) \<and> (of_char c :: nat) \<le> 126)
          then u_escape (of_char c) else [c])"

definition encode_basestring :: "bool \<Rightarrow> string \<Rightarrow> string" where
  "encode_basestring ensure_ascii s =
     [CHR 0x22] @ concat (map (encode_char ensure_ascii) s) @ [CHR 0x22]"

fun digits :: "nat \<Rightarrow> string" where
  "digits n = (if n < 10 then [char_of (48 + n)] else digits (n div 10) @ [char_of (48 + n mod 10)])"

definition int_repr :: "int \<Rightarrow> string" where
  "int_repr i = (if i < 0 then CHR ''-'' # digits (nat (- i)) else digits (nat i))"

fun intercalate :: "'a list \<Rightarrow> 'a list list \<Rightarrow> 'a list" where
  "intercalate sep [] = []"
| "intercalate sep [x] = x"
| "intercalate sep (x # y # ys) = x @ sep @ intercalate sep (y # ys)"

definition newline_indent :: "nat \<Rightarrow> nat \<Rightarrow> string" where
  "newline_indent indent level = CHR 0x0A # replicate (indent * level) CHR '' ''"

primrec iterencode :: "pyval \<Rightarrow> bool \<Rightarrow> nat \<Rightarrow> nat \<Rightarrow> string" where
  "iterencode PNone ea ind lvl = ''null''"
| "iterencode (PBool b) ea ind lvl = (if b then ''true'' else ''false'')"
| "iterencode (PInt n) ea ind lvl = int_repr n"
| "iterencode (PStr s) ea ind lvl = encode_basestring ea s"
| "iterencode (PList xs) ea ind lvl =
     (if xs = [] then ''[]''
      else ''['' @ newline_indent ind (Suc lvl)
        @ intercalate ('','' @ newline_indent ind (Suc lvl))
            (map (\<lambda>x. iterencode x ea ind (Suc lvl)) xs)
        @ newline_indent ind lvl @ '']'')"
| "iterencode (PDict kvs) ea ind lvl =
     (if kvs = [] then ''{}''
      else ''{'' @ newline_indent ind (Suc lvl)
        @ intercalate ('','' @ newline_indent ind (Suc lvl))
            (map (\<lambda>kv. encode_basestring ea (fst kv) @ '': '' @ snd kv)
               (map (map_prod id (\<lambda>v. iterencode v ea ind (Suc lvl))) kvs))
        @ newline_indent ind lvl @ ''}'')"
| "iterencode (PObjectId s) ea ind lvl = []"

definition json_dumps :: "pyval \<Rightarrow> nat \<Rightarrow> bool \<Rightarrow> exn + string" where
  "json_dumps obj indent ensure_ascii =
     (if has_objectid obj then Inl TypeError else Inr (iterencode obj ensure_ascii indent 0))"

text \<open>The two download payloads of the Job Description Matcher page. Both call
  \<open>json.dumps(..., indent=2)\<close> and leave \<open>ensure_ascii\<close> at its default, \<open>True\<close>.\<close>

definition single_candidate_payload :: "pyval \<Rightarrow> exn + string" where
  "single_candidate_payload retailored = json_dumps retailored 2 True"

definition retailor_branch_payload :: "pyval \<Rightarrow> exn + string" where
  "retailor_branch_payload new_res = json_dumps (convert_objectid_to_str new_res) 2 True"

section \<open>The processing pipeline\<close>

subsection \<open>Operations on values\<close>

fun truthy :: "pyval \<Rightarrow> bool" where
  "truthy PNone = False"
| "truthy (PBool b) = b"
| "truthy (PInt n) = (n \<noteq> 0)"
| "truthy (PStr s) = (s \<noteq> [])"
| "truthy (PList xs) = (xs \<noteq> [])"
| "truthy (PDict kvs) = (kvs \<noteq> [])"
| "truthy (PObjectId s) = True"

text \<open>\<open>d.get(k, dflt)\<close> and \<open>d[k] = v\<close> on the items of a dictionary: an assignment to a
  key that is there replaces its value in place, a new key goes to the end.\<close>

definition dict_get :: "(string \<times> pyval) list \<Rightarrow> string \<Rightarrow> pyval \<Rightarrow> pyval" where
  "dict_get kvs k dflt = (case map_of kvs k of None \<Rightarrow> dflt | Some v \<Rightarrow> v)"

fun dict_set :: "(string \<times> pyval) list \<Rightarrow> string \<Rightarrow> pyval \<Rightarrow> (string \<times> pyval) list" where
  "dict_set [] k v = [(k, v)]"
| "dict_set ((k', v') # kvs) k v =
     (if k' = k then (k, v) # kvs else (k', v') # dict_set kvs k v)"

text \<open>\<open>obj[k] = v\<close> with a string key: only a dictionary accepts it.\<close>

fun py_setitem :: "pyval \<Rightarrow> string \<Rightarrow> pyval \<Rightarrow> exn + pyval" where
  "py_setitem (PDict kvs) k v = Inr (PDict (dict_set kvs k v))"
| "py_setitem obj k v = Inl TypeError"

text \<open>\<open>obj.strip()\<close>: only a string has the method.\<close>

fun py_strip_of :: "pyval \<Rightarrow> exn + string" where
  "py_strip_of (PStr s) = Inr (py_strip s)"
| "py_strip_of obj = Inl AttributeError"

subsection \<open>Files, uploads, messages\<close>

text \<open>
  The three directories the program creates, and a path as a directory with a file name.
  Uploaded file names are base names, as the uploader hands them over. A file holds the
  bytes of an upload, the text of a JSON value written by \<open>json.dump\<close> (which
  \<open>json.load\<close> reads back as that value), the text left behind by a \<open>json.dump\<close> that
  raised, or other text. Writes to these directories succeed, but for the temporary copy
  of an upload in the parsing stage, which no handler guards.
\<close>

datatype dir = TempDir | ParsedDir | StandardizedDir

type_synonym path = "dir \<times> string"

datatype file_content = FBytes string | FJson pyval | FPartial | FText string

record uploaded_file =
  uf_name :: string
  uf_buffer :: string

datatype msg =
    Processing_files nat
  | Processing_item nat nat string
  | Skipping_unsupported string string
  | No_content_extracted string
  | Error_parsing string exn
  | Processed_count nat nat
  | Standardizing_files nat
  | Error_initializing_standardizer exn
  | Standardizing_item nat nat string
  | Empty_content string
  | Error_standardizing string exn
  | Standardized_count nat nat
  | Error_connecting exn
  | Uploading_item nat nat string
  | Error_uploading string exn
  | Uploaded_count nat nat
  | Validating
  | Missing_name string
  | Original_not_found string
  | Reprocessed_item string
  | Failed_reparse string
  | Error_validating string exn
  | Reprocessed_count nat

text \<open>What a run does to the outside, in order: the Streamlit output, the progress bar
  (numerator and denominator of the fraction), file writes, and calls of the collaborators.\<close>

datatype event =
    StWrite msg
  | StWarning msg
  | StError msg
  | StSuccess msg
  | StatusText msg
  | Progress nat nat
  | FileWrite path
  | ParseCall path
  | OcrParseCall path
  | SaveToJsonCall path
  | LlmCall string
  | InsertOrUpdateCall pyval

text \<open>
  The collaborators, which are not part of \<open>main.py\<close>, as parameters. Each call that may
  answer differently from one time to the next takes the number of events so far, so that a
  run may see any sequence of answers. A result \<open>Inl e\<close> or \<open>Some e\<close> is the exception the
  call raises.
  \<open>open_temp_file\<close> is the opening and writing of the temporary copy of an upload in the
  parsing stage, which may fail in the operating system; \<open>new_ResumeParser\<close> is the
  construction of the parser there.
\<close>

record env =
  SUPPORTED_EXTENSIONS :: "string list"
  open_temp_file :: "nat \<Rightarrow> path \<Rightarrow> exn option"
  new_ResumeParser :: "nat \<Rightarrow> exn option"
  parse_resume :: "nat \<Rightarrow> path \<Rightarrow> exn + pyval"
  ocr_parse_resume :: "nat \<Rightarrow> path \<Rightarrow> exn + pyval"
  save_to_json :: "nat \<Rightarrow> pyval \<Rightarrow> path \<Rightarrow> exn option"
  new_ResumeStandardizer :: "nat \<Rightarrow> exn option"
  make_standardizer_prompt :: "pyval \<Rightarrow> pyval \<Rightarrow> exn + string"
  call_azure_llm :: "nat \<Rightarrow> string \<Rightarrow> exn + string"
  clean_llm_response :: "string \<Rightarrow> exn + string"
  json_loads :: "string \<Rightarrow> exn + pyval"
  new_ResumeDBManager :: "nat \<Rightarrow> exn option"
  insert_or_update_resume :: "nat \<Rightarrow> pyval \<Rightarrow> exn option"
  now_isoformat :: "nat \<Rightarrow> string"
  gettempdir :: string

text \<open>The session state, the file system and the events so far.\<close>

record world =
  fs :: "path \<Rightarrow> file_content option"
  trace :: "event list"
  processing_complete :: bool
  standardizing_complete :: bool
  db_upload_complete :: bool
  processed_files :: "path list"
  standardized_files :: "path list"
  uploaded_files :: "string list"

definition tick :: "world \<Rightarrow> nat" where
  "tick w = length (trace w)"

definition emit :: "event \<Rightarrow> world \<Rightarrow> world" where
  "emit e w = w\<lparr>trace := trace w @ [e]\<rparr>"

definition write_file :: "path \<Rightarrow> file_content \<Rightarrow> world \<Rightarrow> world" where
  "write_file p f w = w\<lparr>fs := (fs w)(p \<mapsto> f), trace := trace w @ [FileWrite p]\<rparr>"

definition dir_str :: "env \<Rightarrow> dir \<Rightarrow> string" where
  "dir_str E d = (case d of
       TempDir \<Rightarrow> gettempdir E @ ''/resume_processor''
     | ParsedDir \<Rightarrow> gettempdir E @ ''/resume_processor/parsed''
     | StandardizedDir \<Rightarrow> gettempdir E @ ''/resume_processor/standardized'')"

definition path_str :: "env \<Rightarrow> path \<Rightarrow> string" where
  "path_str E p = dir_str E (fst p) @ ''/'' @ snd p"

text \<open>\<open>json.load\<close> of the file at a path, and \<open>json.dump(obj, f, indent=2,
  ensure_ascii=False)\<close> into a file opened for writing: the file is truncated first, so a
  dump that raises leaves a partial text.\<close>

definition json_load_file :: "world \<Rightarrow> path \<Rightarrow> exn + pyval" where
  "json_load_file w p = (case fs w p of
       None \<Rightarrow> Inl FileNotFoundError
     | Some (FJson v) \<Rightarrow> Inr v
     | Some f \<Rightarrow> Inl JSONDecodeError)"

definition json_dump_file :: "pyval \<Rightarrow> path \<Rightarrow> world \<Rightarrow> exn option \<times> world" where
  "json_dump_file obj p w =
     (if has_objectid obj then (Some TypeError, write_file p FPartial w)
      else (None, write_file p (FJson obj) w))"

subsection \<open>process_uploaded_files\<close>

text \<open>The body of the \<open>try\<close> for one upload: the exception it raised, if any, with the
  count and the world reached.\<close>

definition process_try :: "env \<Rightarrow> string \<Rightarrow> path \<Rightarrow> nat \<times> world \<Rightarrow> exn option \<times> nat \<times> world" where
  "process_try E file_name temp_file_path cw = (case cw of (processed_count, w) \<Rightarrow>
     (let w1 = emit (ParseCall temp_file_path) w in
      case parse_resume E (tick w) temp_file_path of
        Inl e \<Rightarrow> (Some e, processed_count, w1)
      | Inr parsed_resume \<Rightarrow>
          if truthy parsed_resume then
            (case py_setitem parsed_resume ''timestamp'' (PStr (now_isoformat E (tick w1))) of
               Inl e \<Rightarrow> (Some e, processed_count, w1)
             | Inr r1 \<Rightarrow>
            (case py_setitem r1 ''original_filename'' (PStr file_name) of
               Inl e \<Rightarrow> (Some e, processed_count, w1)
             | Inr r2 \<Rightarrow>
            (let output_path = (ParsedDir, stem file_name @ ''.json'') in
             case json_dump_file r2 output_path w1 of
               (Some e, w2) \<Rightarrow> (Some e, processed_count, w2)
             | (None, w2) \<Rightarrow>
                 (None, processed_count + 1,
                  w2\<lparr>processed_files := processed_files w2 @ [output_path]\<rparr>))))
          else (None, processed_count, emit (StWarning (No_content_extracted file_name)) w1)))"

text \<open>One iteration. The write of the temporary file and the construction of the parser
  stand before the \<open>try\<close>: an exception there leaves the loop and the function, and the
  result carries it.\<close>

definition process_item :: "env \<Rightarrow> nat \<Rightarrow> nat \<Rightarrow> uploaded_file \<Rightarrow> nat \<times> world \<Rightarrow> exn option \<times> nat \<times> world" where
  "process_item E total_files i uploaded_file cw = (case cw of (processed_count, w) \<Rightarrow>
     (let file_name = uf_name uploaded_file;
          w1 = emit (StatusText (Processing_item (i + 1) total_files file_name)) w;
          temp_file_path = (TempDir, file_name)
      in case open_temp_file E (tick w1) temp_file_path of
           Some e \<Rightarrow> (Some e, processed_count, w1)
         | None \<Rightarrow>
             (let w2 = write_file temp_file_path (FBytes (uf_buffer uploaded_file)) w1;
                  file_ext = lower (suffix file_name)
              in case new_ResumeParser E (tick w2) of
                   Some e \<Rightarrow> (Some e, processed_count, w2)
                 | None \<Rightarrow>
                     if file_ext \<notin> set (SUPPORTED_EXTENSIONS E)
                     then (None, processed_count,
                           emit (StWarning (Skipping_unsupported file_name file_ext)) w2)
                     else (case process_try E file_name temp_file_path (processed_count, w2) of
                             (Some e, c, w3) \<Rightarrow>
                               (None, c, emit (Progress (i + 1) total_files)
                                           (emit (StError (Error_parsing file_name e)) w3))
                           | (None, c, w3) \<Rightarrow>
                               (None, c, emit (Progress (i + 1) total_files) w3)))))"

fun process_loop :: "env \<Rightarrow> nat \<Rightarrow> nat \<Rightarrow> uploaded_file list \<Rightarrow> nat \<times> world \<Rightarrow> exn option \<times> nat \<times> world" where
  "process_loop E total_files i [] cw = (None, cw)"
| "process_loop E total_files i (u # us) cw =
     (case process_item E total_files i u cw of
        (Some e, c, w) \<Rightarrow> (Some e, c, w)
      | (None, c, w) \<Rightarrow> process_loop E total_files (Suc i) us (c, w))"

text \<open>The result holds the exception that left the function, if one did; then the count
  line is not written and \<open>processing_complete\<close> stays false.\<close>

definition process_uploaded_files :: "env \<Rightarrow> uploaded_file list \<Rightarrow> world \<Rightarrow> exn option \<times> world" where
  "process_uploaded_files E files w =
     (let w0 = w\<lparr>processing_complete := False, standardizing_complete := False,
                  db_upload_complete := False, processed_files := []\<rparr>;
          w1 = emit (StWrite (Processing_files (length files))) w0;
          total_files = length files
      in case process_loop E total_files 0 files (0, w1) of
           (Some e, processed_count, w2) \<Rightarrow> (Some e, w2)
         | (None, processed_count, w2) \<Rightarrow>
             (None, (emit (StatusText (Processed_count processed_count total_files)) w2)
                      \<lparr>processing_complete := True\<rparr>))"

subsection \<open>standardize_resumes\<close>

datatype flow = Normal | Continue | Raised exn

text \<open>The stamping of a freshly standardized record: timestamp, source file, and the
  original file name when the parsed input carries one.\<close>

definition stamp_standardized :: "pyval \<Rightarrow> string \<Rightarrow> string \<Rightarrow> (string \<times> pyval) list \<Rightarrow> exn + pyval" where
  "stamp_standardized parsed_json now source raw =
     (case py_setitem parsed_json ''timestamp'' (PStr now) of
        Inl e \<Rightarrow> Inl e
      | Inr j1 \<Rightarrow>
     (case py_setitem j1 ''source_file'' (PStr source) of
        Inl e \<Rightarrow> Inl e
      | Inr j2 \<Rightarrow>
     (case map_of raw ''original_filename'' of
        None \<Rightarrow> Inr j2
      | Some v \<Rightarrow> py_setitem j2 ''original_filename'' v)))"

text \<open>The standardizer's answer to a prompt, cleaned and parsed: the value, or the
  exception of the step that failed, with the world after the call and the raw log.\<close>

definition call_standardizer :: "env \<Rightarrow> string \<Rightarrow> path option \<Rightarrow> world \<Rightarrow> (exn + pyval) \<times> world" where
  "call_standardizer E prompt raw_log_path w =
     (let w1 = emit (LlmCall prompt) w in
      case call_azure_llm E (tick w) prompt of
        Inl e \<Rightarrow> (Inl e, w1)
      | Inr raw_response \<Rightarrow>
          (let w2 = (case raw_log_path of None \<Rightarrow> w1
                     | Some p \<Rightarrow> write_file p (FText raw_response) w1) in
           case clean_llm_response E raw_response of
             Inl e \<Rightarrow> (Inl e, w2)
           | Inr cleaned_json \<Rightarrow> (json_loads E cleaned_json, w2)))"

definition standardize_try :: "env \<Rightarrow> path \<Rightarrow> path \<Rightarrow> nat \<times> world \<Rightarrow> flow \<times> nat \<times> world" where
  "standardize_try E file_path output_path cw = (case cw of (standardized_count, w) \<Rightarrow>
     (case json_load_file w file_path of
        Inl e \<Rightarrow> (Raised e, standardized_count, w)
      | Inr (PDict raw) \<Rightarrow>
          (let content = dict_get raw ''content'' (PStr '''');
               links = dict_get raw ''links'' (PList []) in
           case py_strip_of content of
             Inl e \<Rightarrow> (Raised e, standardized_count, w)
           | Inr stripped \<Rightarrow>
               if stripped = [] then
                 (Continue, standardized_count, emit (StWarning (Empty_content (snd file_path))) w)
               else
                 (case make_standardizer_prompt E content links of
                    Inl e \<Rightarrow> (Raised e, standardized_count, w)
                  | Inr prompt \<Rightarrow>
                 (case call_standardizer E prompt
                         (Some (StandardizedDir, stem (snd file_path) @ ''_raw.md'')) w of
                    (Inl e, w2) \<Rightarrow> (Raised e, standardized_count, w2)
                  | (Inr parsed_json, w2) \<Rightarrow>
                 (case stamp_standardized parsed_json (now_isoformat E (tick w2))
                         (path_str E file_path) raw of
                    Inl e \<Rightarrow> (Raised e, standardized_count, w2)
                  | Inr stamped \<Rightarrow>
                 (case json_dump_file stamped output_path w2 of
                    (Some e, w3) \<Rightarrow> (Raised e, standardized_count, w3)
                  | (None, w3) \<Rightarrow>
                      (Normal, standardized_count + 1,
                       w3\<lparr>standardized_files := standardized_files w3 @ [output_path]\<rparr>))))))
      | Inr raw \<Rightarrow> (Raised AttributeError, standardized_count, w)))"

definition standardize_item :: "env \<Rightarrow> nat \<Rightarrow> nat \<Rightarrow> path \<Rightarrow> nat \<times> world \<Rightarrow> nat \<times> world" where
  "standardize_item E total_files i file_path cw = (case cw of (standardized_count, w) \<Rightarrow>
     (let w1 = emit (StatusText (Standardizing_item (i + 1) total_files (snd file_path))) w;
          output_path = (StandardizedDir, snd file_path)
      in if fs w1 output_path \<noteq> None
         then (standardized_count + 1,
               emit (Progress (i + 1) total_files)
                 (w1\<lparr>standardized_files := standardized_files w1 @ [output_path]\<rparr>))
         else (case standardize_try E file_path output_path (standardized_count, w1) of
                 (Raised e, c, w2) \<Rightarrow>
                   (c, emit (Progress (i + 1) total_files)
                         (emit (StError (Error_standardizing (snd file_path) e)) w2))
               | (Continue, c, w2) \<Rightarrow> (c, w2)
               | (Normal, c, w2) \<Rightarrow> (c, emit (Progress (i + 1) total_files) w2))))"

fun standardize_loop :: "env \<Rightarrow> nat \<Rightarrow> nat \<Rightarrow> path list \<Rightarrow> nat \<times> world \<Rightarrow> nat \<times> world" where
  "standardize_loop E total_files i [] cw = cw"
| "standardize_loop E total_files i (p # ps) cw =
     standardize_loop E total_files (Suc i) ps (standardize_item E total_files i p cw)"

text \<open>The result holds the exception that left the function, if one did: the constructor of
  the standardizer is guarded against \<open>ValueError\<close> only.\<close>

definition standardize_resumes :: "env \<Rightarrow> world \<Rightarrow> exn option \<times> world" where
  "standardize_resumes E w =
     (let w0 = w\<lparr>standardizing_complete := False, standardized_files := []\<rparr>;
          w1 = emit (StWrite (Standardizing_files (length (processed_files w0)))) w0
      in case new_ResumeStandardizer E (tick w1) of
           Some e \<Rightarrow>
             if is_ValueError e
             then (None, emit (StError (Error_initializing_standardizer e)) w1)
             else (Some e, w1)
         | None \<Rightarrow>
             (let total_files = length (processed_files w1);
                  files_to_standardize = processed_files w1
              in case standardize_loop E total_files 0 files_to_standardize (0, w1) of
                   (standardized_count, w2) \<Rightarrow>
                     (None, (emit (StatusText (Standardized_count standardized_count total_files)) w2)
                              \<lparr>standardizing_complete := True\<rparr>)))"

subsection \<open>upload_to_mongodb\<close>





subsection \<open>validate_and_reprocess_resumes\<close>

text \<open>The condition of the \<open>if\<close>: \<open>not resume_data.get("name") or
  len(resume_data.get("name").split()[0]) < 2\<close>. A value other than a dictionary has no
  \<open>get\<close>, a truthy name other than a string has no \<open>split\<close>, and the first element of an
  empty token list does not exist.\<close>

definition name_check :: "pyval \<Rightarrow> exn + bool" where
  "name_check resume_data =
     (case resume_data of
        PDict kvs \<Rightarrow>
          (let name = dict_get kvs ''name'' PNone in
           if \<not> truthy name then Inr True
           else (case name of
                   PStr s \<Rightarrow>
                     (case py_split s of
                        [] \<Rightarrow> Inl IndexError
                      | tok # rest \<Rightarrow> Inr (length tok < 2))
                 | other \<Rightarrow> Inl AttributeError))
      | other \<Rightarrow> Inl AttributeError)"

text \<open>The metadata of a re-standardized record.\<close>

definition stamp_reprocessed :: "pyval \<Rightarrow> string \<Rightarrow> string \<Rightarrow> string \<Rightarrow> exn + pyval" where
  "stamp_reprocessed parsed_json now source original_name =
     (case py_setitem parsed_json ''timestamp'' (PStr now) of
        Inl e \<Rightarrow> Inl e
      | Inr j1 \<Rightarrow>
     (case py_setitem j1 ''source_file'' (PStr source) of
        Inl e \<Rightarrow> Inl e
      | Inr j2 \<Rightarrow> py_setitem j2 ''original_filename'' (PStr original_name)))"

text \<open>The branch taken when the OCR parser returned something: save the parsed data,
  standardize it again, stamp the result and write it over the record.\<close>

definition restandardize :: "env \<Rightarrow> path \<Rightarrow> uploaded_file \<Rightarrow> path \<Rightarrow> pyval \<Rightarrow> world \<Rightarrow> exn option \<times> world" where
  "restandardize E file_path original_file temp_file_path parsed_resume w =
     (let parsed_output_path = (ParsedDir, stem (snd file_path) @ ''.json'');
          w1 = emit (SaveToJsonCall parsed_output_path) w in
      case save_to_json E (tick w) parsed_resume parsed_output_path of
        Some e \<Rightarrow> (Some e, w1)
      | None \<Rightarrow>
     (let w2 = write_file parsed_output_path (FJson parsed_resume) w1 in
      case new_ResumeStandardizer E (tick w2) of
        Some e \<Rightarrow> (Some e, w2)
      | None \<Rightarrow>
     (case parsed_resume of
        PDict kvs \<Rightarrow>
          (let content = dict_get kvs ''content'' (PStr '''');
               links = dict_get kvs ''links'' (PList []) in
           case make_standardizer_prompt E content links of
             Inl e \<Rightarrow> (Some e, w2)
           | Inr prompt \<Rightarrow>
          (case call_standardizer E prompt None w2 of
             (Inl e, w3) \<Rightarrow> (Some e, w3)
           | (Inr parsed_json, w3) \<Rightarrow>
          (case stamp_reprocessed parsed_json (now_isoformat E (tick w3))
                  (path_str E temp_file_path) (uf_name original_file) of
             Inl e \<Rightarrow> (Some e, w3)
           | Inr stamped \<Rightarrow>
          (case json_dump_file stamped file_path w3 of
             (Some e, w4) \<Rightarrow> (Some e, w4)
           | (None, w4) \<Rightarrow>
               (None, emit (StSuccess (Reprocessed_item (snd file_path))) w4)))))
      | other \<Rightarrow> (Some AttributeError, w2))))"

definition validate_try :: "env \<Rightarrow> uploaded_file list \<Rightarrow> path \<Rightarrow> nat \<times> world \<Rightarrow> exn option \<times> nat \<times> world" where
  "validate_try E files file_path cw = (case cw of (reprocessed_count, w) \<Rightarrow>
     (case json_load_file w file_path of
        Inl e \<Rightarrow> (Some e, reprocessed_count, w)
      | Inr resume_data \<Rightarrow>
     (case name_check resume_data of
        Inl e \<Rightarrow> (Some e, reprocessed_count, w)
      | Inr False \<Rightarrow> (None, reprocessed_count, w)
      | Inr True \<Rightarrow>
          (let w1 = emit (StWarning (Missing_name (snd file_path))) w;
               original_file_name = stem (snd file_path) in
           case find (\<lambda>file. stem (uf_name file) = original_file_name) files of
             None \<Rightarrow>
               (None, reprocessed_count + 1,
                emit (StError (Original_not_found (snd file_path))) w1)
           | Some original_file \<Rightarrow>
               (let temp_file_path = (TempDir, uf_name original_file);
                    w2 = write_file temp_file_path (FBytes (uf_buffer original_file)) w1;
                    w3 = emit (OcrParseCall temp_file_path) w2 in
                case ocr_parse_resume E (tick w2) temp_file_path of
                  Inl e \<Rightarrow> (Some e, reprocessed_count + 1, w3)
                | Inr parsed_resume \<Rightarrow>
                    if truthy parsed_resume then
                      (case restandardize E file_path original_file temp_file_path parsed_resume w3 of
                         (r, w4) \<Rightarrow> (r, reprocessed_count + 1, w4))
                    else (None, reprocessed_count + 1,
                          emit (StError (Failed_reparse (uf_name original_file))) w3))))))"

definition validate_item :: "env \<Rightarrow> uploaded_file list \<Rightarrow> path \<Rightarrow> nat \<times> world \<Rightarrow> nat \<times> world" where
  "validate_item E files file_path cw =
     (case validate_try E files file_path cw of
        (Some e, c, w1) \<Rightarrow> (c, emit (StError (Error_validating (snd file_path) e)) w1)
      | (None, c, w1) \<Rightarrow> (c, w1))"

fun validate_loop :: "env \<Rightarrow> uploaded_file list \<Rightarrow> path list \<Rightarrow> nat \<times> world \<Rightarrow> nat \<times> world" where
  "validate_loop E files [] cw = cw"
| "validate_loop E files (p # ps) cw = validate_loop E files ps (validate_item E files p cw)"

definition validate_and_reprocess_resumes :: "env \<Rightarrow> uploaded_file list \<Rightarrow> world \<Rightarrow> world" where
  "validate_and_reprocess_resumes E files w =
     (let w1 = emit (StWrite Validating) w in
      case validate_loop E files (standardized_files w1) (0, w1) of
        (reprocessed_count, w2) \<Rightarrow> emit (StWrite (Reprocessed_count reprocessed_count)) w2)"

subsection \<open>A concrete environment\<close>

text \<open>Collaborators for evaluating the pipeline on concrete inputs: both parsers return a
  document with some text, and the standardizer answers with a record whose name is
  empty.\<close>

definition example_response :: string where
  "example_response = ''{'' @ [CHR 0x22] @ ''name'' @ [CHR 0x22] @ '': '' @ [CHR 0x22, CHR 0x22] @ ''}''"

definition example_env :: env where
  "example_env = \<lparr>
     SUPPORTED_EXTENSIONS = [''.pdf'', ''.docx''],
     open_temp_file = (\<lambda>t p. None),
     new_ResumeParser = (\<lambda>t. None),
     parse_resume = (\<lambda>t p. Inr (PDict [(''content'', PStr ''text''), (''links'', PList [])])),
     ocr_parse_resume = (\<lambda>t p. Inr (PDict [(''content'', PStr ''scan''), (''links'', PList [])])),
     save_to_json = (\<lambda>t v p. None),
     new_ResumeStandardizer = (\<lambda>t. None),
     make_standardizer_prompt = (\<lambda>content links. Inr ''prompt''),
     call_azure_llm = (\<lambda>t prompt. Inr example_response),
     clean_llm_response = (\<lambda>s. Inr s),
     json_loads = (\<lambda>s. if s = example_response then Inr (PDict [(''name'', PStr '''')])
                        else Inl JSONDecodeError),
     new_ResumeDBManager = (\<lambda>t. None),
     insert_or_update_resume = (\<lambda>t v. None),
     now_isoformat = (\<lambda>t. ''2025-01-01T00:00:00''),
     gettempdir = ''/tmp''\<rparr>"

definition empty_world :: world where
  "empty_world = \<lparr>fs = Map.empty, trace = [], processing_complete = False,
     standardizing_complete = False, db_upload_complete = False, processed_files = [],
     standardized_files = [], uploaded_files = []\<rparr>"

text \<open>A world holding one standardized record, \<open>cv.json\<close>, with the given value.\<close>

definition world_with_record :: "pyval \<Rightarrow> world" where
  "world_with_record v = empty_world\<lparr>fs := [(StandardizedDir, ''cv.json'') \<mapsto> FJson v],
     standardized_files := [(StandardizedDir, ''cv.json'')]\<rparr>"

subsection \<open>The validity predicate of the specification\<close>

text \<open>The specification's invariant, in its words: \<open>name\<close> is non-empty and its first
  whitespace-delimited token has length at least 2.\<close>

definition spec_name_valid :: "pyval \<Rightarrow> bool" where
  "spec_name_valid record =
     (case record of
        PDict kvs \<Rightarrow>
          (case map_of kvs ''name'' of
             Some (PStr s) \<Rightarrow>
               s \<noteq> [] \<and> (case py_split s of [] \<Rightarrow> False | tok # rest \<Rightarrow> 2 \<le> length tok)
           | other \<Rightarrow> False)
      | other \<Rightarrow> False)"

text \<open>A world holding one parsed file, \<open>cv.json\<close>, as the parsing stage writes it for the
  upload \<open>cv.pdf\<close>.\<close>

definition world_with_parsed :: world where
  "world_with_parsed = empty_world\<lparr>
     fs := [(ParsedDir, ''cv.json'') \<mapsto>
        FJson (PDict [(''content'', PStr ''text''), (''links'', PList []),
                      (''timestamp'', PStr ''2025-01-01T00:00:00''),
                      (''original_filename'', PStr ''cv.pdf'')])],
     processed_files := [(ParsedDir, ''cv.json'')]\<rparr>"

subsection \<open>Observers of a run\<close>

text \<open>The number of OCR extractions, of standardizer calls and of writes of a given file
  in a list of events.\<close>

fun is_ocr_call :: "event \<Rightarrow> bool" where
  "is_ocr_call (OcrParseCall p) = True"
| "is_ocr_call e = False"

fun is_llm_call :: "event \<Rightarrow> bool" where
  "is_llm_call (LlmCall prompt) = True"
| "is_llm_call e = False"

definition ocr_calls :: "event list \<Rightarrow> nat" where
  "ocr_calls tr = length (filter is_ocr_call tr)"

definition llm_calls :: "event list \<Rightarrow> nat" where
  "llm_calls tr = length (filter is_llm_call tr)"

definition writes_of :: "path \<Rightarrow> event list \<Rightarrow> nat" where
  "writes_of p tr = length (filter (\<lambda>e. e = FileWrite p) tr)"



text \<open>Two uploads with one stem, and the world after parsing and standardizing them.\<close>

definition two_uploads :: "uploaded_file list" where
  "two_uploads = [\<lparr>uf_name = ''cv.pdf'', uf_buffer = ''%PDF''\<rparr>,
                  \<lparr>uf_name = ''cv.docx'', uf_buffer = ''PK''\<rparr>]"


fun is_item_report :: "event \<Rightarrow> bool" where
  "is_item_report (StWarning (Skipping_unsupported nm ext)) = True"
| "is_item_report (StWarning (No_content_extracted nm)) = True"
| "is_item_report (StError (Error_parsing nm e)) = True"
| "is_item_report (StWarning (Empty_content nm)) = True"
| "is_item_report (StError (Error_standardizing nm e)) = True"
| "is_item_report (StError (Error_uploading nm e)) = True"
| "is_item_report e = False"

definition item_reports :: "event list \<Rightarrow> nat" where
  "item_reports tr = length (filter is_item_report tr)"





section \<open>Properties of convert_objectid_to_str\<close>

lemma convert_twice:
  "convert_objectid_to_str (convert_objectid_to_str v) = convert_objectid_to_str v"
  by (induction v)
     (auto simp: list.map_comp prod.map_comp comp_def intro!: list.map_cong0 prod.map_cong0)

lemma convert_removes_objectids: "\<not> has_objectid (convert_objectid_to_str v)"
  by (induction v) (auto simp: list_ex_iff)

lemma convert_without_objectid: "\<not> has_objectid v \<Longrightarrow> convert_objectid_to_str v = v"
  by (induction v) (auto simp: list_ex_iff intro!: map_idI prod.expand)

lemma convert_shape: "shape (convert_objectid_to_str v) = shape v"
  by (induction v)
     (auto simp: list.map_comp prod.map_comp comp_def intro!: list.map_cong0 prod.map_cong0)

lemma convert_leaves: "leaves (convert_objectid_to_str v) = map leaf_str (leaves v)"
  by (induction v)
     (auto simp: map_concat comp_def intro!: arg_cong[where f=concat] list.map_cong0)

text \<open>
  Claim C9. \<open>convert_objectid_to_str\<close> is idempotent; on a value holding no \<open>ObjectId\<close> it
  is the identity; it keeps the container structure (the keys of every dictionary in their
  order, the length and order of every list), and the leaves of the result are the leaves of
  the argument in the same order, each \<open>ObjectId\<close> replaced by its string form and every
  other leaf unchanged.
\<close>

theorem convert_objectid_to_str_idempotent_identity:
  "convert_objectid_to_str (convert_objectid_to_str v) = convert_objectid_to_str v
   \<and> (\<not> has_objectid v \<longrightarrow> convert_objectid_to_str v = v)
   \<and> shape (convert_objectid_to_str v) = shape v
   \<and> leaves (convert_objectid_to_str v) = map leaf_str (leaves v)
   \<and> (\<forall>kvs. v = PDict kvs \<longrightarrow>
        (\<exists>kvs'. convert_objectid_to_str v = PDict kvs' \<and> map fst kvs' = map fst kvs
           \<and> length kvs' = length kvs))
   \<and> (\<forall>xs. v = PList xs \<longrightarrow>
        (\<exists>xs'. convert_objectid_to_str v = PList xs' \<and> length xs' = length xs))"
  using convert_twice convert_without_objectid convert_shape convert_leaves
  by (auto simp: comp_def)

theorem convert_objectid_to_str_idempotent_identity_witness:
  "\<not> has_objectid (PDict [(''name'', PStr ''Ann''), (''skills'', PList [PStr ''sql'', PInt 3])])
   \<and> convert_objectid_to_str (PDict [(''name'', PStr ''Ann''), (''skills'', PList [PStr ''sql'', PInt 3])])
       = PDict [(''name'', PStr ''Ann''), (''skills'', PList [PStr ''sql'', PInt 3])]
   \<and> convert_objectid_to_str (PDict [(''_id'', PObjectId ''65a1''), (''tags'', PList [PObjectId ''65a2'', PNone])])
       = PDict [(''_id'', PStr ''65a1''), (''tags'', PList [PStr ''65a2'', PNone])]"
  using convert_objectid_to_str_idempotent_identity
    [of "PDict [(''name'', PStr ''Ann''), (''skills'', PList [PStr ''sql'', PInt 3])]"]
  by simp

section \<open>The download payloads\<close>

text \<open>
  Claim C7. The downloadable JSON is pretty-printed with non-ASCII characters kept as they
  are. Evaluated on a record whose name is \<open>Z\<close> followed by the character U+00E9: both
  download payloads hold the six characters of the escape \<open>\u00e9\<close> in its place, whereas
  \<open>json.dumps\<close> with \<open>ensure_ascii=False\<close>, as the writers of the parsed and standardized
  files pass it, keeps the character.
\<close>

theorem download_payload_escapes_non_ascii:
  "single_candidate_payload (PDict [(''name'', PStr [CHR ''Z'', CHR 0xE9])])
     = Inr ([CHR ''{'', CHR 0x0A] @ ''  '' @ [CHR 0x22] @ ''name'' @ [CHR 0x22] @ '': ''
            @ [CHR 0x22, CHR ''Z'', CHR 0x5C] @ ''u00e9'' @ [CHR 0x22, CHR 0x0A, CHR ''}''])
   \<and> retailor_branch_payload (PDict [(''name'', PStr [CHR ''Z'', CHR 0xE9])])
     = Inr ([CHR ''{'', CHR 0x0A] @ ''  '' @ [CHR 0x22] @ ''name'' @ [CHR 0x22] @ '': ''
            @ [CHR 0x22, CHR ''Z'', CHR 0x5C] @ ''u00e9'' @ [CHR 0x22, CHR 0x0A, CHR ''}''])
   \<and> json_dumps (PDict [(''name'', PStr [CHR ''Z'', CHR 0xE9])]) 2 False
     = Inr ([CHR ''{'', CHR 0x0A] @ ''  '' @ [CHR 0x22] @ ''name'' @ [CHR 0x22] @ '': ''
            @ [CHR 0x22, CHR ''Z'', CHR 0xE9, CHR 0x22, CHR 0x0A, CHR ''}''])"
  by code_simp

section \<open>Standardization\<close>

lemma standardize_item_existing:
  assumes "fs w (StandardizedDir, snd file_path) \<noteq> None"
  shows "standardize_item E tot i file_path (n, w) =
     (n + 1, w\<lparr>trace := trace w @ [StatusText (Standardizing_item (i + 1) tot (snd file_path)),
                                   Progress (i + 1) tot],
               standardized_files := standardized_files w @ [(StandardizedDir, snd file_path)]\<rparr>)"
  using assms by (auto simp: standardize_item_def emit_def Let_def)

text \<open>
  Claim C1. When the standardized output of a parsed file already exists, the iteration for
  that file adds the existing path to the standardized set and one to the count, writes no
  file and calls no collaborator (the only events are the status line and the progress
  update), and the loop goes on with the next file.
\<close>

theorem standardize_resumes_reuses_existing_output:
  assumes "fs w (StandardizedDir, snd file_path) \<noteq> None"
  shows "\<exists>w'. standardize_item E tot i file_path (n, w) = (n + 1, w')
           \<and> fs w' = fs w
           \<and> standardized_files w' = standardized_files w @ [(StandardizedDir, snd file_path)]
           \<and> trace w' = trace w @ [StatusText (Standardizing_item (i + 1) tot (snd file_path)),
                                     Progress (i + 1) tot]
           \<and> standardize_loop E tot i (file_path # rest) (n, w)
               = standardize_loop E tot (Suc i) rest (n + 1, w')"
  using assms by (simp add: standardize_item_existing)

theorem standardize_resumes_reuses_existing_output_witness:
  "fs (world_with_record PNone) (StandardizedDir, snd (ParsedDir, ''cv.json'')) \<noteq> None
   \<and> fst (standardize_item example_env 1 0 (ParsedDir, ''cv.json'') (0, world_with_record PNone)) = 1
   \<and> trace (snd (standardize_item example_env 1 0 (ParsedDir, ''cv.json'') (0, world_with_record PNone)))
       = [StatusText (Standardizing_item 1 1 ''cv.json''), Progress 1 1]"
proof -
  have h: "fs (world_with_record PNone) (StandardizedDir, snd (ParsedDir, ''cv.json'')) \<noteq> None"
    by (simp add: world_with_record_def empty_world_def)
  from standardize_resumes_reuses_existing_output [OF h, of example_env 1 0 0 "[]"]
  show ?thesis using h by (auto simp: world_with_record_def empty_world_def)
qed

section \<open>Validation and reprocessing\<close>

lemma split_acc_whitespace: "\<forall>c\<in>set s. isspace c \<Longrightarrow> split_acc [] s = []"
  by (induction s) auto

lemma py_split_whitespace: "\<forall>c\<in>set s. isspace c \<Longrightarrow> py_split s = []"
  by (simp add: py_split_def split_acc_whitespace)

lemma name_check_whitespace:
  assumes "map_of kvs ''name'' = Some (PStr s)" "s \<noteq> []" "\<forall>c\<in>set s. isspace c"
  shows "name_check (PDict kvs) = Inl IndexError"
  using assms by (simp add: name_check_def dict_get_def py_split_whitespace)

lemma validate_item_raised:
  assumes "json_load_file w file_path = Inr resume_data" "name_check resume_data = Inl e"
  shows "validate_item E files file_path (n, w)
           = (n, emit (StError (Error_validating (snd file_path) e)) w)"
  using assms by (simp add: validate_item_def validate_try_def)

text \<open>
  Claim C10. For a stored record whose name is a non-empty string of whitespace only, the
  validity check raises IndexError (the token list is empty); the handler of the iteration
  reports it as a validation error naming the file; the record is not counted for
  reprocessing, no parser or standardizer is called, the file system is unchanged (no repair,
  no flag), and validation goes on with the remaining records.
\<close>

theorem whitespace_only_name_raises_in_check:
  assumes "fs w file_path = Some (FJson (PDict kvs))"
    and "map_of kvs ''name'' = Some (PStr s)" and "s \<noteq> []" and "\<forall>c\<in>set s. isspace c"
  shows "name_check (PDict kvs) = Inl IndexError
     \<and> (\<exists>w'. validate_item E files file_path (n, w) = (n, w')
           \<and> trace w' = trace w @ [StError (Error_validating (snd file_path) IndexError)]
           \<and> fs w' = fs w
           \<and> validate_loop E files (file_path # rest) (n, w) = validate_loop E files rest (n, w'))"
proof -
  have c: "name_check (PDict kvs) = Inl IndexError"
    using assms(2-4) by (rule name_check_whitespace)
  have l: "json_load_file w file_path = Inr (PDict kvs)"
    using assms(1) by (simp add: json_load_file_def)
  show ?thesis
    using c validate_item_raised [OF l c] by (simp add: emit_def)
qed

theorem whitespace_only_name_raises_in_check_witness:
  "fs (world_with_record (PDict [(''name'', PStr ''  '')])) (StandardizedDir, ''cv.json'')
      = Some (FJson (PDict [(''name'', PStr ''  '')]))
   \<and> map_of [(''name'', PStr ''  '')] ''name'' = Some (PStr ''  '')
   \<and> ''  '' \<noteq> [] \<and> isspace (CHR '' '')
   \<and> name_check (PDict [(''name'', PStr ''  '')]) = Inl IndexError
   \<and> fst (validate_item example_env [\<lparr>uf_name = ''cv.pdf'', uf_buffer = ''%PDF''\<rparr>]
            (StandardizedDir, ''cv.json'') (0, world_with_record (PDict [(''name'', PStr ''  '')]))) = 0"
proof -
  have h1: "fs (world_with_record (PDict [(''name'', PStr ''  '')])) (StandardizedDir, ''cv.json'')
      = Some (FJson (PDict [(''name'', PStr ''  '')]))"
    by (simp add: world_with_record_def empty_world_def)
  have h2: "map_of [(''name'', PStr ''  '')] ''name'' = Some (PStr ''  '')" by simp
  have h3: "''  '' \<noteq> []" by simp
  have h4: "\<forall>c\<in>set ''  ''. isspace c" by (simp add: isspace_def)
  from whitespace_only_name_raises_in_check [OF h1 h2 h3 h4,
      of example_env "[\<lparr>uf_name = ''cv.pdf'', uf_buffer = ''%PDF''\<rparr>]" 0 "[]"]
  show ?thesis using h1 h2 h3 h4 by (auto simp: isspace_def)
qed

lemma name_check_agrees_when_defined:
  "name_check record = Inr b \<Longrightarrow> b = (\<not> spec_name_valid record)"
  by (auto simp: name_check_def spec_name_valid_def dict_get_def Let_def
           split: pyval.splits option.splits list.splits if_splits)

text \<open>
  Claim C3. A record is selected for reprocessing exactly when it violates the validity
  predicate. Where the check returns, it agrees with the predicate (the lemma above). On the
  record whose name is two spaces the predicate is violated, yet the check raises IndexError
  instead of selecting the record: the run reports a validation error and reprocesses
  nothing.
\<close>

theorem whitespace_only_name_not_selected:
  "\<not> spec_name_valid (PDict [(''name'', PStr ''  '')])
   \<and> name_check (PDict [(''name'', PStr ''  '')]) = Inl IndexError
   \<and> trace (validate_and_reprocess_resumes example_env [\<lparr>uf_name = ''cv.pdf'', uf_buffer = ''%PDF''\<rparr>]
              (world_with_record (PDict [(''name'', PStr ''  '')])))
       = [StWrite Validating, StError (Error_validating ''cv.json'' IndexError),
          StWrite (Reprocessed_count 0)]"
  by (simp add: spec_name_valid_def name_check_def dict_get_def py_split_def isspace_def
        validate_and_reprocess_resumes_def validate_item_def validate_try_def json_load_file_def
        world_with_record_def empty_world_def emit_def)

lemma validate_item_original_missing:
  assumes "json_load_file w file_path = Inr resume_data" "name_check resume_data = Inr True"
    and "\<forall>file\<in>set files. stem (uf_name file) \<noteq> stem (snd file_path)"
  shows "validate_item E files file_path (n, w)
           = (n + 1, emit (StError (Original_not_found (snd file_path)))
                       (emit (StWarning (Missing_name (snd file_path))) w))"
proof -
  have "find (\<lambda>file. stem (uf_name file) = stem (snd file_path)) files = None"
    using assms(3) by (simp add: find_None_iff)
  then show ?thesis
    using assms(1,2) by (simp add: validate_item_def validate_try_def Let_def)
qed

text \<open>
  Claim C6. When a record is selected for reprocessing and no uploaded file has the stem of
  the record's file name, the iteration reports the missing original as an error, leaves the
  file system as it was, and validation goes on with the remaining records.
\<close>

theorem missing_original_is_not_fatal:
  assumes "json_load_file w file_path = Inr resume_data" and "name_check resume_data = Inr True"
    and "\<forall>file\<in>set files. stem (uf_name file) \<noteq> stem (snd file_path)"
  shows "\<exists>w'. validate_item E files file_path (n, w) = (n + 1, w')
           \<and> trace w' = trace w @ [StWarning (Missing_name (snd file_path)),
                                     StError (Original_not_found (snd file_path))]
           \<and> fs w' = fs w
           \<and> validate_loop E files (file_path # rest) (n, w)
                = validate_loop E files rest (n + 1, w')"
  using validate_item_original_missing [OF assms] by (simp add: emit_def)

theorem missing_original_is_not_fatal_witness:
  "json_load_file (world_with_record (PDict [(''name'', PStr '''')])) (StandardizedDir, ''cv.json'')
      = Inr (PDict [(''name'', PStr '''')])
   \<and> name_check (PDict [(''name'', PStr '''')]) = Inr True
   \<and> fst (validate_item example_env [\<lparr>uf_name = ''other.pdf'', uf_buffer = ''%PDF''\<rparr>]
            (StandardizedDir, ''cv.json'') (0, world_with_record (PDict [(''name'', PStr '''')]))) = 1
   \<and> fs (snd (validate_item example_env [\<lparr>uf_name = ''other.pdf'', uf_buffer = ''%PDF''\<rparr>]
            (StandardizedDir, ''cv.json'') (0, world_with_record (PDict [(''name'', PStr '''')]))))
        (StandardizedDir, ''cv.json'') = Some (FJson (PDict [(''name'', PStr '''')]))"
proof -
  have h1: "json_load_file (world_with_record (PDict [(''name'', PStr '''')])) (StandardizedDir, ''cv.json'')
      = Inr (PDict [(''name'', PStr '''')])"
    by (simp add: json_load_file_def world_with_record_def empty_world_def)
  have h2: "name_check (PDict [(''name'', PStr '''')]) = Inr True"
    by (simp add: name_check_def dict_get_def)
  have h3: "\<forall>file\<in>set [\<lparr>uf_name = ''other.pdf'', uf_buffer = ''%PDF''\<rparr>].
          stem (uf_name file) \<noteq> stem (snd (StandardizedDir, ''cv.json''))"
    by (simp add: stem_def)
  from missing_original_is_not_fatal [OF h1 h2 h3, of example_env 0 "[]"]
  show ?thesis using h1 h2 h3 by (auto simp: world_with_record_def empty_world_def)
qed

section \<open>Stamping of standardized records\<close>

lemma map_of_dict_set:
  "map_of (dict_set kvs k v) k' = (if k' = k then Some v else map_of kvs k')"
  by (induction kvs) auto

lemma py_setitem_Inr:
  "py_setitem obj k v = Inr obj' \<Longrightarrow> \<exists>kvs. obj = PDict kvs \<and> obj' = PDict (dict_set kvs k v)"
  by (cases obj) auto

lemma stamp_standardized_fields:
  assumes "stamp_standardized parsed_json now source raw = Inr stamped"
  shows "\<exists>kvs. stamped = PDict kvs
           \<and> map_of kvs ''timestamp'' = Some (PStr now)
           \<and> map_of kvs ''source_file'' = Some (PStr source)
           \<and> (\<forall>v. map_of raw ''original_filename'' = Some v
                 \<longrightarrow> map_of kvs ''original_filename'' = Some v)"
  using assms
  by (auto simp: stamp_standardized_def map_of_dict_set
           split: sum.splits option.splits dest!: py_setitem_Inr)

lemma json_dump_file_ok:
  "json_dump_file obj p w = (None, w') \<Longrightarrow>
     fs w' p = Some (FJson obj) \<and> trace w' = trace w @ [FileWrite p]
     \<and> standardized_files w' = standardized_files w"
  by (auto simp: json_dump_file_def write_file_def split: if_splits)

lemma call_standardizer_keeps_session:
  "call_standardizer E prompt lg w = (r, w') \<Longrightarrow>
     standardized_files w' = standardized_files w \<and> processed_files w' = processed_files w"
  by (auto simp: call_standardizer_def emit_def write_file_def Let_def
           split: sum.splits option.splits)

text \<open>The provenance the parsing stage writes: a parsed file that counts as processed
  carries the upload's file name as \<open>original_filename\<close>, and a timestamp.\<close>

lemma process_try_stamps:
  assumes "process_try E file_name temp_file_path (n, w) = (None, Suc n, w')"
  shows "\<exists>kvs. fs w' (ParsedDir, stem file_name @ ''.json'') = Some (FJson (PDict kvs))
           \<and> map_of kvs ''original_filename'' = Some (PStr file_name)
           \<and> map_of kvs ''timestamp'' = Some (PStr (now_isoformat E (tick w' - 1)))"
  using assms
  apply (simp add: process_try_def Let_def split: sum.splits if_splits prod.splits option.splits)
  apply (auto dest!: json_dump_file_ok py_setitem_Inr simp: tick_def emit_def map_of_dict_set)
  done

lemma stamp_standardized_exact:
  assumes "stamp_standardized parsed_json now source raw = Inr stamped"
  shows "\<exists>answer. parsed_json = PDict answer
     \<and> stamped = PDict (case map_of raw ''original_filename'' of
          None \<Rightarrow> dict_set (dict_set answer ''timestamp'' (PStr now)) ''source_file'' (PStr source)
        | Some v \<Rightarrow> dict_set (dict_set (dict_set answer ''timestamp'' (PStr now))
                      ''source_file'' (PStr source)) ''original_filename'' v)"
  using assms
  by (auto simp: stamp_standardized_def split: sum.splits option.splits dest!: py_setitem_Inr)

lemma call_standardizer_answer:
  assumes "call_standardizer E prompt lg w = (Inr answer, w')"
  shows "\<exists>raw_response cleaned_json.
       call_azure_llm E (tick w) prompt = Inr raw_response
     \<and> clean_llm_response E raw_response = Inr cleaned_json
     \<and> json_loads E cleaned_json = Inr answer
     \<and> trace w' = trace w @ LlmCall prompt # (case lg of None \<Rightarrow> [] | Some p \<Rightarrow> [FileWrite p])
     \<and> fs w' = (case lg of None \<Rightarrow> fs w | Some p \<Rightarrow> (fs w)(p \<mapsto> FText raw_response))
     \<and> standardized_files w' = standardized_files w"
  using assms
  by (auto simp: call_standardizer_def emit_def write_file_def Let_def
        split: sum.splits option.splits)

text \<open>
  Claim C8. When the standardization of a parsed file succeeds, the record written to the
  output path is the standardizer's answer (the reply to the prompt built from the parsed
  content and links, cleaned and parsed) with \<open>timestamp\<close> set to the time read just
  before the write, \<open>source_file\<close> set to the parsed file's path as a string and, when the
  parsed input has an \<open>original_filename\<close>, that key set to the same value; every other
  key of the answer is kept; the file is counted and its output path joins the standardized
  set.
\<close>

theorem standardize_resumes_stamps_record:
  assumes "standardize_try E file_path output_path (n, w) = (Normal, n', w')"
  shows "\<exists>raw prompt raw_response cleaned_json answer kvs.
       json_load_file w file_path = Inr (PDict raw)
     \<and> make_standardizer_prompt E (dict_get raw ''content'' (PStr ''''))
           (dict_get raw ''links'' (PList [])) = Inr prompt
     \<and> call_azure_llm E (tick w) prompt = Inr raw_response
     \<and> clean_llm_response E raw_response = Inr cleaned_json
     \<and> json_loads E cleaned_json = Inr (PDict answer)
     \<and> kvs = (case map_of raw ''original_filename'' of
          None \<Rightarrow> dict_set (dict_set answer ''timestamp''
                      (PStr (now_isoformat E (tick w' - 1))))
                    ''source_file'' (PStr (path_str E file_path))
        | Some v \<Rightarrow> dict_set (dict_set (dict_set answer ''timestamp''
                      (PStr (now_isoformat E (tick w' - 1))))
                    ''source_file'' (PStr (path_str E file_path))) ''original_filename'' v)
     \<and> fs w' output_path = Some (FJson (PDict kvs))
     \<and> map_of kvs ''timestamp'' = Some (PStr (now_isoformat E (tick w' - 1)))
     \<and> map_of kvs ''source_file'' = Some (PStr (path_str E file_path))
     \<and> (\<forall>v. map_of raw ''original_filename'' = Some v
           \<longrightarrow> map_of kvs ''original_filename'' = Some v)
     \<and> (\<forall>k. k \<noteq> ''timestamp'' \<and> k \<noteq> ''source_file'' \<and> k \<noteq> ''original_filename''
           \<longrightarrow> map_of kvs k = map_of answer k)
     \<and> n' = n + 1
     \<and> standardized_files w' = standardized_files w @ [output_path]"
  using assms
  apply (simp add: standardize_try_def Let_def
      split: sum.splits pyval.splits if_splits prod.splits option.splits)
  apply (auto dest!: json_dump_file_ok stamp_standardized_exact call_standardizer_answer
      simp: tick_def map_of_dict_set split: option.splits)
  done

lemmas example_eval = example_env_def example_response_def empty_world_def
  json_load_file_def json_dump_file_def write_file_def emit_def tick_def
  dict_get_def py_strip_def isspace_def stem_def path_str_def dir_str_def
  call_standardizer_def

theorem standardize_resumes_stamps_record_witness:
  "fst (standardize_try example_env (ParsedDir, ''cv.json'') (StandardizedDir, ''cv.json'')
          (0, world_with_parsed)) = Normal
   \<and> fs (snd (snd (standardize_try example_env (ParsedDir, ''cv.json'')
                  (StandardizedDir, ''cv.json'') (0, world_with_parsed))))
        (StandardizedDir, ''cv.json'')
      = Some (FJson (PDict [(''name'', PStr ''''),
                            (''timestamp'', PStr ''2025-01-01T00:00:00''),
                            (''source_file'', PStr ''/tmp/resume_processor/parsed/cv.json''),
                            (''original_filename'', PStr ''cv.pdf'')]))"
proof -
  let ?X = "standardize_try example_env (ParsedDir, ''cv.json'') (StandardizedDir, ''cv.json'')
          (0, world_with_parsed)"
  have h: "fst ?X = Normal"
    by (simp add: standardize_try_def stamp_standardized_def world_with_parsed_def example_eval)
  then have e: "?X = (Normal, fst (snd ?X), snd (snd ?X))"
    by (simp add: prod_eq_iff)
  have l: "json_load_file world_with_parsed (ParsedDir, ''cv.json'')
      = Inr (PDict [(''content'', PStr ''text''), (''links'', PList []),
                      (''timestamp'', PStr ''2025-01-01T00:00:00''),
                      (''original_filename'', PStr ''cv.pdf'')])"
    by (simp add: world_with_parsed_def example_eval)
  have a: "json_loads example_env s = Inr (PDict answer) \<Longrightarrow> answer = [(''name'', PStr '''')]"
    for s answer
    by (simp add: example_env_def split: if_splits)
  from standardize_resumes_stamps_record [OF e] l h
  show ?thesis by (auto simp: path_str_def dir_str_def example_env_def dest!: a)
qed

section \<open>Bounded reprocessing\<close>

text \<open>
  Claim C2, as stated: no record is repaired twice in one run. Two uploads with one stem,
  \<open>cv.pdf\<close> and \<open>cv.docx\<close>, leave the path of \<open>cv.json\<close> twice in the standardized set;
  the standardizer answers with an empty name, and the validation run then extracts,
  standardizes and writes that one record twice.
\<close>

theorem duplicate_stem_record_repaired_twice:
  "standardized_files (snd (standardize_resumes example_env
       (snd (process_uploaded_files example_env two_uploads empty_world))))
     = [(StandardizedDir, ''cv.json''), (StandardizedDir, ''cv.json'')]
   \<and> writes_of (StandardizedDir, ''cv.json'')
        (drop (length (trace (snd (standardize_resumes example_env
                 (snd (process_uploaded_files example_env two_uploads empty_world))))))
           (trace (validate_and_reprocess_resumes example_env two_uploads
              (snd (standardize_resumes example_env
                 (snd (process_uploaded_files example_env two_uploads empty_world))))))) = 2
   \<and> ocr_calls
        (drop (length (trace (snd (standardize_resumes example_env
                 (snd (process_uploaded_files example_env two_uploads empty_world))))))
           (trace (validate_and_reprocess_resumes example_env two_uploads
              (snd (standardize_resumes example_env
                 (snd (process_uploaded_files example_env two_uploads empty_world))))))) = 2
   \<and> llm_calls
        (drop (length (trace (snd (standardize_resumes example_env
                 (snd (process_uploaded_files example_env two_uploads empty_world))))))
           (trace (validate_and_reprocess_resumes example_env two_uploads
              (snd (standardize_resumes example_env
                 (snd (process_uploaded_files example_env two_uploads empty_world))))))) = 2"
  by code_simp

lemma ocr_calls_simps [simp]:
  "ocr_calls [] = 0"
  "ocr_calls (e # es) = (if is_ocr_call e then 1 else 0) + ocr_calls es"
  "ocr_calls (tr @ es) = ocr_calls tr + ocr_calls es"
  by (simp_all add: ocr_calls_def)

lemma llm_calls_simps [simp]:
  "llm_calls [] = 0"
  "llm_calls (e # es) = (if is_llm_call e then 1 else 0) + llm_calls es"
  "llm_calls (tr @ es) = llm_calls tr + llm_calls es"
  by (simp_all add: llm_calls_def)

lemma writes_of_simps [simp]:
  "writes_of p [] = 0"
  "writes_of p (e # es) = (if e = FileWrite p then 1 else 0) + writes_of p es"
  "writes_of p (tr @ es) = writes_of p tr + writes_of p es"
  by (simp_all add: writes_of_def)

lemma trace_emit [simp]: "trace (emit e w) = trace w @ [e]"
  by (simp add: emit_def)

lemma fs_emit [simp]: "fs (emit e w) = fs w"
  by (simp add: emit_def)

lemma trace_write_file [simp]: "trace (write_file p f w) = trace w @ [FileWrite p]"
  by (simp add: write_file_def)

lemma fs_write_file [simp]: "fs (write_file p f w) = (fs w)(p \<mapsto> f)"
  by (simp add: write_file_def)

lemma call_standardizer_no_log:
  "call_standardizer E prompt None w = (r, w') \<Longrightarrow>
     trace w' = trace w @ [LlmCall prompt] \<and> fs w' = fs w"
  by (auto simp: call_standardizer_def Let_def split: sum.splits)

lemma json_dump_file_effect:
  "json_dump_file obj p w = (r, w') \<Longrightarrow>
     trace w' = trace w @ [FileWrite p]
     \<and> (r = None \<and> fs w' = (fs w)(p \<mapsto> FJson obj)
         \<or> r = Some TypeError \<and> fs w' = (fs w)(p \<mapsto> FPartial))"
  by (auto simp: json_dump_file_def split: if_splits)

lemma restandardize_calls:
  assumes "restandardize E file_path original_file temp_file_path parsed_resume w = (r, w')"
  shows "ocr_calls (trace w') = ocr_calls (trace w)
     \<and> llm_calls (trace w') \<le> llm_calls (trace w) + 1"
  using assms
  apply (simp add: restandardize_def Let_def
      split: option.splits pyval.splits sum.splits prod.splits)
  apply (auto dest!: call_standardizer_no_log json_dump_file_effect)
  done

lemma restandardize_writes:
  assumes "restandardize E file_path original_file temp_file_path parsed_resume w = (r, w')"
  shows "writes_of (StandardizedDir, b) (trace w')
           \<le> writes_of (StandardizedDir, b) (trace w)
               + (if (StandardizedDir, b) = file_path then 1 else 0)"
  using assms
  apply (simp add: restandardize_def Let_def
      split: option.splits pyval.splits sum.splits prod.splits)
  apply (auto dest!: call_standardizer_no_log json_dump_file_effect)
  done

lemma validate_item_calls:
  assumes "validate_item E files file_path (n, w) = (n', w')"
  shows "ocr_calls (trace w') \<le> ocr_calls (trace w) + 1
     \<and> llm_calls (trace w') + ocr_calls (trace w) \<le> llm_calls (trace w) + ocr_calls (trace w')"
  using assms
  apply (simp add: validate_item_def validate_try_def Let_def
      split: option.splits sum.splits prod.splits bool.splits if_splits)
  apply (auto dest!: restandardize_calls)
  done

lemma validate_item_writes:
  assumes "validate_item E files file_path (n, w) = (n', w')"
  shows "writes_of (StandardizedDir, b) (trace w')
           \<le> writes_of (StandardizedDir, b) (trace w)
               + (if (StandardizedDir, b) = file_path then 1 else 0)"
  using assms
  apply (simp add: validate_item_def validate_try_def Let_def
      split: option.splits sum.splits prod.splits bool.splits if_splits)
  apply (auto dest!: restandardize_writes[where b = b])
  done

lemma validate_loop_calls:
  "validate_loop E files ps (n, w) = (n', w') \<Longrightarrow>
     ocr_calls (trace w') \<le> ocr_calls (trace w) + length ps
     \<and> llm_calls (trace w') + ocr_calls (trace w) \<le> llm_calls (trace w) + ocr_calls (trace w')"
proof (induction ps arbitrary: n w)
  case Nil
  then show ?case by simp
next
  case (Cons p ps)
  obtain n1 w1 where s: "validate_item E files p (n, w) = (n1, w1)"
    by (cases "validate_item E files p (n, w)")
  with Cons.prems have r: "validate_loop E files ps (n1, w1) = (n', w')" by simp
  from validate_item_calls [OF s] Cons.IH [OF r] show ?case by simp
qed

lemma validate_loop_writes:
  "validate_loop E files ps (n, w) = (n', w') \<Longrightarrow>
     writes_of (StandardizedDir, b) (trace w')
       \<le> writes_of (StandardizedDir, b) (trace w) + count_list ps (StandardizedDir, b)"
proof (induction ps arbitrary: n w)
  case Nil
  then show ?case by simp
next
  case (Cons p ps)
  obtain n1 w1 where s: "validate_item E files p (n, w) = (n1, w1)"
    by (cases "validate_item E files p (n, w)")
  with Cons.prems have r: "validate_loop E files ps (n1, w1) = (n', w')" by simp
  from validate_item_writes [OF s, of b] Cons.IH [OF r] show ?case by auto
qed

lemma count_list_distinct: "distinct xs \<Longrightarrow> count_list xs x \<le> 1"
  by (induction xs) auto

text \<open>
  Claim C2, amended. Each entry of the standardized set triggers at most one repair pass:
  a run makes at most as many OCR extractions as the set has entries and at most as many
  standardizer calls as OCR extractions, and it writes a record at most as often as its path
  occurs in the set, so at most once when the set holds no path twice.
\<close>

theorem repair_passes_bounded_by_list_entries:
  "ocr_calls (trace (validate_and_reprocess_resumes E files w))
      \<le> ocr_calls (trace w) + length (standardized_files w)
   \<and> llm_calls (trace (validate_and_reprocess_resumes E files w)) + ocr_calls (trace w)
      \<le> llm_calls (trace w) + ocr_calls (trace (validate_and_reprocess_resumes E files w))
   \<and> writes_of (StandardizedDir, b) (trace (validate_and_reprocess_resumes E files w))
      \<le> writes_of (StandardizedDir, b) (trace w)
          + count_list (standardized_files w) (StandardizedDir, b)
   \<and> (distinct (standardized_files w) \<longrightarrow>
        writes_of (StandardizedDir, b) (trace (validate_and_reprocess_resumes E files w))
          \<le> writes_of (StandardizedDir, b) (trace w) + 1)"
proof -
  let ?w1 = "emit (StWrite Validating) w"
  obtain n' w' where r: "validate_loop E files (standardized_files ?w1) (0, ?w1) = (n', w')"
    by (cases "validate_loop E files (standardized_files ?w1) (0, ?w1)")
  have f: "standardized_files ?w1 = standardized_files w" by (simp add: emit_def)
  have t: "trace (validate_and_reprocess_resumes E files w)
             = trace w' @ [StWrite (Reprocessed_count n')]"
    using r by (simp add: validate_and_reprocess_resumes_def Let_def)
  from validate_loop_calls [OF r] validate_loop_writes [OF r, of b]
    count_list_distinct [of "standardized_files w" "(StandardizedDir, b)"]
  show ?thesis unfolding t f by auto
qed

theorem repair_passes_bounded_by_list_entries_witness:
  "distinct (standardized_files (world_with_record (PDict [(''name'', PStr '''')])))
   \<and> writes_of (StandardizedDir, ''cv.json'')
        (trace (validate_and_reprocess_resumes example_env two_uploads
                  (world_with_record (PDict [(''name'', PStr '''')])))) = 1
   \<and> ocr_calls
        (trace (validate_and_reprocess_resumes example_env two_uploads
                  (world_with_record (PDict [(''name'', PStr '''')])))) = 1"
proof -
  have d: "distinct (standardized_files (world_with_record (PDict [(''name'', PStr '''')])))"
    by (simp add: world_with_record_def empty_world_def)
  have e: "writes_of (StandardizedDir, ''cv.json'')
        (trace (validate_and_reprocess_resumes example_env two_uploads
                  (world_with_record (PDict [(''name'', PStr '''')])))) = 1
     \<and> ocr_calls
        (trace (validate_and_reprocess_resumes example_env two_uploads
                  (world_with_record (PDict [(''name'', PStr '''')])))) = 1"
    by code_simp
  from repair_passes_bounded_by_list_entries [of example_env two_uploads
      "world_with_record (PDict [(''name'', PStr '''')])" "''cv.json''"] d e
  show ?thesis by simp
qed

section \<open>The record stored after a repair\<close>















section \<open>Per-item failures in the batch stages\<close>

lemma item_reports_simps [simp]:
  "item_reports [] = 0"
  "item_reports (e # es) = (if is_item_report e then 1 else 0) + item_reports es"
  "item_reports (tr @ es) = item_reports tr + item_reports es"
  by (simp_all add: item_reports_def)


lemma session_emit [simp]:
  "processed_files (emit e w) = processed_files w"
  "standardized_files (emit e w) = standardized_files w"
  "uploaded_files (emit e w) = uploaded_files w"
  by (simp_all add: emit_def)

lemma session_write_file [simp]:
  "processed_files (write_file p f w) = processed_files w"
  "standardized_files (write_file p f w) = standardized_files w"
  "uploaded_files (write_file p f w) = uploaded_files w"
  by (simp_all add: write_file_def)





























end
